theory Spec2Isabelle
  imports Complex_Main "HOL-Library.Char_ord" "HOL-Library.List_Lexorder" "HOL-Library.AList"
    "HOL-Library.Word"
begin


section \<open>Strings and paths\<close>

text \<open>
  Python \<open>str\<close> values are modelled as \<open>string\<close>, a character being a code point below
  256. \<open>lower\<close> is written out for the letters \<open>A\<close> to \<open>Z\<close>: the program only tests the
  result with \<open>endswith('.pdf')\<close>, where no other character makes a difference.
\<close>

type_synonym bytes = string

definition lower_char :: "char \<Rightarrow> char" where
  "lower_char c =
     (case map_of (zip ''ABCDEFGHIJKLMNOPQRSTUVWXYZ'' ''abcdefghijklmnopqrstuvwxyz'') c of
        Some d \<Rightarrow> d
      | None \<Rightarrow> c)"

definition lower :: "string \<Rightarrow> string" where
  "lower s = map lower_char s"

definition endswith :: "string \<Rightarrow> string \<Rightarrow> bool" where
  "endswith s suf = (length suf \<le> length s \<and> drop (length s - length suf) s = suf)"

definition startswith :: "string \<Rightarrow> string \<Rightarrow> bool" where
  "startswith s pre = (take (length pre) s = pre)"

text \<open>The test \<open>fname.lower().endswith('.pdf')\<close> of \<open>list_modules\<close>, \<open>upload_files\<close> and \<open>export_pdf\<close>.\<close>

definition is_pdf_name :: "string \<Rightarrow> bool" where
  "is_pdf_name fname = endswith (lower fname) ''.pdf''"

text \<open>\<open>os.path.join\<close> of two components (\<open>posixpath\<close>): an absolute second component
  replaces the first.\<close>

definition path_join :: "string \<Rightarrow> string \<Rightarrow> string" where
  "path_join a b =
     (if startswith b ''/'' \<or> a = [] then b
      else if endswith a ''/'' then a @ b
      else a @ ''/'' @ b)"

text \<open>The module-level configuration: \<open>app_dir\<close> is \<open>os.path.dirname(__file__)\<close>, the three
  colours are read from the environment with fixed defaults.\<close>

record config =
  app_dir :: string
  BRAND_BLUE :: string
  ORANGE :: string
  GREY :: string

definition UPLOAD_FOLDER :: "config \<Rightarrow> string" where
  "UPLOAD_FOLDER cfg = path_join (app_dir cfg) ''uploads''"

definition COVER_FOLDER :: "config \<Rightarrow> string" where
  "COVER_FOLDER cfg = path_join (UPLOAD_FOLDER cfg) ''covers''"

definition EXPORT_FOLDER :: "config \<Rightarrow> string" where
  "EXPORT_FOLDER cfg = path_join (UPLOAD_FOLDER cfg) ''exports''"

definition STATIC_FOLDER :: "config \<Rightarrow> string" where
  "STATIC_FOLDER cfg = path_join (app_dir cfg) ''static''"

section \<open>The file system\<close>

text \<open>
  The file system is a finite table from path strings, as the program passes them to the
  operating system, to nodes. A node is a regular file with its bytes or a directory.
\<close>

datatype node = File bytes | Dir

type_synonym fs = "(string \<times> node) list"

definition path_exists :: "fs \<Rightarrow> string \<Rightarrow> bool" where
  "path_exists fs p = (map_of fs p \<noteq> None)"

text \<open>Writing a file (\<open>f.save(path)\<close>, \<open>open(path, 'wb')\<close>): the path now holds the bytes.\<close>

definition fs_write :: "fs \<Rightarrow> string \<Rightarrow> bytes \<Rightarrow> fs" where
  "fs_write fs p b = AList.update p (File b) fs"

text \<open>\<open>os.listdir(d)\<close>: the names of the entries directly inside directory \<open>d\<close>.\<close>

definition child_name :: "string \<Rightarrow> string \<Rightarrow> string option" where
  "child_name d p =
     (let pre = d @ ''/''; n = drop (length pre) p
      in if startswith p pre \<and> n \<noteq> [] \<and> CHR ''/'' \<notin> set n then Some n else None)"

definition listdir :: "fs \<Rightarrow> string \<Rightarrow> string list" where
  "listdir fs d = remdups (List.map_filter (child_name d) (map fst fs))"

section \<open>Module store: \<open>list_modules\<close>\<close>

fun list_modules_loop :: "string list \<Rightarrow> string list \<Rightarrow> string list" where
  "list_modules_loop files [] = files"
| "list_modules_loop files (fname # rest) =
     (if is_pdf_name fname then list_modules_loop (files @ [fname]) rest
      else list_modules_loop files rest)"

definition list_modules :: "config \<Rightarrow> fs \<Rightarrow> string list" where
  "list_modules cfg fs = list_modules_loop [] (sort (listdir fs (UPLOAD_FOLDER cfg)))"

lemma list_modules_loop_filter:
  "list_modules_loop files names = files @ filter is_pdf_name names"
  by (induction names arbitrary: files) auto

section \<open>Module store: \<open>upload_files\<close>\<close>

text \<open>\<open>str(counter)\<close> inside the f-string: the decimal digits of a natural number.\<close>

definition digit_char :: "nat \<Rightarrow> char" where
  "digit_char d = ''0123456789'' ! d"

function str_nat :: "nat \<Rightarrow> string" where
  "str_nat n = (if n < 10 then [digit_char n] else str_nat (n div 10) @ [digit_char (n mod 10)])"
  by pat_completeness auto
termination
  by (relation "measure id") auto

declare str_nat.simps [simp del]

lemma of_char_digit_char: "d < 10 \<Longrightarrow> of_char (digit_char d) = 48 + d"
proof -
  assume "d < 10"
  then have "d \<in> {0, 1, 2, 3, 4, 5, 6, 7, 8, 9}" by auto
  then show ?thesis by (auto simp: digit_char_def)
qed

lemma digit_char_inj: "a < 10 \<Longrightarrow> b < 10 \<Longrightarrow> digit_char a = digit_char b \<Longrightarrow> a = b"
proof -
  assume a: "a < 10" and b: "b < 10" and e: "digit_char a = digit_char b"
  have "of_char (digit_char a) = (of_char (digit_char b) :: nat)" using e by simp
  then show ?thesis using a b by (simp add: of_char_digit_char)
qed

lemma str_nat_nonempty: "str_nat n \<noteq> []"
  by (subst str_nat.simps) simp

lemma str_nat_inj: "str_nat a = str_nat b \<Longrightarrow> a = b"
proof (induction a arbitrary: b rule: str_nat.induct)
  case (1 n)
  show ?case
  proof (cases "n < 10")
    case True
    then have sn: "str_nat n = [digit_char n]" by (subst str_nat.simps) simp
    show ?thesis
    proof (cases "b < 10")
      case True
      then have "str_nat b = [digit_char b]" by (subst str_nat.simps) simp
      with sn "1.prems" \<open>n < 10\<close> True show ?thesis by (auto dest: digit_char_inj)
    next
      case False
      then have "str_nat b = str_nat (b div 10) @ [digit_char (b mod 10)]"
        by (subst str_nat.simps) simp
      with sn "1.prems" str_nat_nonempty[of "b div 10"] show ?thesis
        by (cases "str_nat (b div 10)") auto
    qed
  next
    case False
    then have sn: "str_nat n = str_nat (n div 10) @ [digit_char (n mod 10)]"
      by (subst str_nat.simps) simp
    show ?thesis
    proof (cases "b < 10")
      case True
      then have "str_nat b = [digit_char b]" by (subst str_nat.simps) simp
      with sn "1.prems" str_nat_nonempty[of "n div 10"] show ?thesis
        by (cases "str_nat (n div 10)") auto
    next
      case b: False
      then have sb: "str_nat b = str_nat (b div 10) @ [digit_char (b mod 10)]"
        by (subst str_nat.simps) simp
      from sn sb "1.prems" have e1: "str_nat (n div 10) = str_nat (b div 10)"
        and e2: "digit_char (n mod 10) = digit_char (b mod 10)" by auto
      from "1.IH"[OF False e1] have d: "n div 10 = b div 10" .
      from e2 have m: "n mod 10 = b mod 10" by (auto dest!: digit_char_inj[rotated 2])
      from d m show ?thesis by (metis div_mult_mod_eq)
    qed
  qed
qed

text \<open>\<open>os.path.splitext\<close> (\<open>genericpath._splitext\<close> with separator \<open>/\<close>): the extension
  starts at the last dot of the last path component, leading dots of the component not
  counted. \<open>rfind\<close> is \<open>str.rfind\<close>; \<open>has_name_char\<close> is the loop that skips leading dots.\<close>

definition rfind :: "string \<Rightarrow> char \<Rightarrow> int" where
  "rfind s c =
     (if c \<in> set s then int (length s) - 1 - int (length (takeWhile (\<lambda>x. x \<noteq> c) (rev s)))
      else - 1)"

function has_name_char :: "string \<Rightarrow> nat \<Rightarrow> nat \<Rightarrow> bool" where
  "has_name_char p filenameIndex dotIndex =
     (if filenameIndex < dotIndex
      then (if take 1 (drop filenameIndex p) \<noteq> ''.'' then True
            else has_name_char p (filenameIndex + 1) dotIndex)
      else False)"
  by pat_completeness auto
termination
  by (relation "measure (\<lambda>(p, filenameIndex, dotIndex). dotIndex - filenameIndex)") auto

declare has_name_char.simps [simp del]

definition splitext :: "string \<Rightarrow> string \<times> string" where
  "splitext p =
     (let sepIndex = rfind p CHR ''/'';
          dotIndex = rfind p CHR ''.''
      in if dotIndex > sepIndex \<and> has_name_char p (nat (sepIndex + 1)) (nat dotIndex)
         then (take (nat dotIndex) p, drop (nat dotIndex) p)
         else (p, []))"


text \<open>The candidate name \<open>f"{base}_{counter}{ext}"\<close>.\<close>

definition candidate :: "string \<Rightarrow> string \<Rightarrow> nat \<Rightarrow> string" where
  "candidate base ext counter = base @ ''_'' @ str_nat counter @ ext"

lemma candidate_inj: "inj (candidate base ext)"
  by (auto simp: inj_def candidate_def dest: str_nat_inj)

lemma path_exists_iff: "path_exists fs p \<longleftrightarrow> p \<in> fst ` set fs"
  by (simp add: path_exists_def map_of_eq_None_iff)

lemma path_join_cases:
  "path_join a b = b \<or> path_join a b = a @ b \<or> path_join a b = a @ ''/'' @ b"
  by (simp add: path_join_def)

text \<open>Only finitely many candidate names exist in a file system: the table is finite and
  distinct counters give distinct names.\<close>

lemma finite_existing_candidates:
  "finite {k. path_exists fs (path_join folder (candidate base ext k))}"
proof -
  let ?K = "fst ` set fs"
  let ?K' = "?K \<union> drop (length folder) ` ?K \<union> drop (length folder + 1) ` ?K"
  have fin: "finite ?K'" by simp
  have "{k. path_exists fs (path_join folder (candidate base ext k))} \<subseteq> candidate base ext -` ?K'"
  proof
    fix k assume "k \<in> {k. path_exists fs (path_join folder (candidate base ext k))}"
    then have m: "path_join folder (candidate base ext k) \<in> ?K" by (simp add: path_exists_iff)
    let ?c = "candidate base ext k"
    from path_join_cases[of folder ?c] have "?c \<in> ?K'"
    proof (elim disjE)
      assume "path_join folder ?c = ?c" with m show ?thesis by simp
    next
      assume e: "path_join folder ?c = folder @ ?c"
      have "drop (length folder) (folder @ ?c) = ?c" by simp
      with m e show ?thesis by (metis UnI1 UnI2 imageI)
    next
      assume e: "path_join folder ?c = folder @ ''/'' @ ?c"
      have "drop (length folder + 1) (folder @ ''/'' @ ?c) = ?c" by simp
      with m e show ?thesis by (metis UnI2 imageI)
    qed
    then show "k \<in> candidate base ext -` ?K'" by simp
  qed
  moreover have "finite (candidate base ext -` ?K')"
    using fin candidate_inj by (rule finite_vimageI)
  ultimately show ?thesis by (rule finite_subset)
qed

text \<open>The loop \<open>while os.path.exists(os.path.join(UPLOAD_FOLDER, unique))\<close> of
  \<open>upload_files\<close>, with its two variables \<open>counter\<close> and \<open>unique\<close>.\<close>

function unique_name :: "fs \<Rightarrow> string \<Rightarrow> string \<Rightarrow> string \<Rightarrow> nat \<Rightarrow> string \<Rightarrow> string" where
  "unique_name fs folder base ext counter unique =
     (if path_exists fs (path_join folder unique)
      then unique_name fs folder base ext (counter + 1) (candidate base ext counter)
      else unique)"
  by pat_completeness auto
termination
proof (relation "measure (\<lambda>(fs, folder, base, ext, counter, unique).
          if path_exists fs (path_join folder unique)
          then Suc (card {k. counter \<le> k \<and> path_exists fs (path_join folder (candidate base ext k))})
          else 0)", goal_cases)
  case 1
  show ?case by simp
next
  case (2 fs folder base ext counter unique)
  let ?E = "\<lambda>c. {k. c \<le> k \<and> path_exists fs (path_join folder (candidate base ext k))}"
  have fin: "finite (?E counter)"
    by (rule finite_subset[OF _ finite_existing_candidates[of fs folder base ext]]) auto
  show ?case
  proof (cases "path_exists fs (path_join folder (candidate base ext counter))")
    case True
    then have "counter \<in> ?E counter" and "counter \<notin> ?E (counter + 1)" by auto
    moreover have "?E (counter + 1) \<subseteq> ?E counter" by auto
    ultimately have "?E (counter + 1) \<subset> ?E counter" by blast
    then have "card (?E (counter + 1)) < card (?E counter)"
      using fin by (rule psubset_card_mono[rotated])
    with 2 True show ?thesis by simp
  next
    case False
    with 2 show ?thesis by simp
  qed
qed

declare unique_name.simps [simp del]

text \<open>An uploaded file (werkzeug's \<open>FileStorage\<close>): the client's file name and the bytes.
  \<open>secure_filename\<close> is werkzeug's sanitiser, a parameter of the model.\<close>

record upload =
  filename :: string
  stream :: bytes

fun upload_loop ::
  "(string \<Rightarrow> string) \<Rightarrow> config \<Rightarrow> fs \<Rightarrow> string list \<Rightarrow> upload list \<Rightarrow> fs \<times> string list" where
  "upload_loop secure_filename cfg fs saved [] = (fs, saved)"
| "upload_loop secure_filename cfg fs saved (f # rest) =
     (if \<not> is_pdf_name (filename f) then upload_loop secure_filename cfg fs saved rest
      else
        let filename' = secure_filename (filename f);
            (base, ext) = splitext filename';
            unique = unique_name fs (UPLOAD_FOLDER cfg) base ext 1 filename'
        in upload_loop secure_filename cfg
             (fs_write fs (path_join (UPLOAD_FOLDER cfg) unique) (stream f))
             (saved @ [unique]) rest)"

record upload_response =
  saved :: "string list"
  all_modules :: "string list"

definition upload_files ::
  "(string \<Rightarrow> string) \<Rightarrow> config \<Rightarrow> fs \<Rightarrow> upload list \<Rightarrow> fs \<times> upload_response" where
  "upload_files secure_filename cfg fs files =
     (let (fs', saved) = upload_loop secure_filename cfg fs [] files
      in (fs', \<lparr>saved = saved, all_modules = list_modules cfg fs'\<rparr>))"

section \<open>Export merger: \<open>export_pdf\<close>\<close>

text \<open>
  The PDF library is a parameter of the model: \<open>PdfReader\<close> gives the pages read from the
  bytes of a file, or \<open>None\<close> when reading raises; \<open>PdfWriter_write\<close> gives the bytes the
  writer produces for a page sequence. The writer itself is the list of pages added so far.
\<close>

record 'p pypdf =
  PdfReader :: "bytes \<Rightarrow> 'p list option"
  PdfWriter_write :: "'p list \<Rightarrow> bytes"

text \<open>\<open>PdfReader(path).pages\<close>: reading a directory or a missing path raises as well.\<close>

definition reader_pages :: "'p pypdf \<Rightarrow> fs \<Rightarrow> string \<Rightarrow> 'p list option" where
  "reader_pages lib fs path =
     (case map_of fs path of
        Some (File b) \<Rightarrow> PdfReader lib b
      | Some Dir \<Rightarrow> None
      | None \<Rightarrow> None)"

text \<open>\<open>for page in reader.pages: writer.add_page(page)\<close>.\<close>

fun add_pages :: "'p list \<Rightarrow> 'p list \<Rightarrow> 'p list" where
  "add_pages writer [] = writer"
| "add_pages writer (page # rest) = add_pages (writer @ [page]) rest"

text \<open>The \<open>try\<close> block around reading one source: an exception is printed and the writer is
  left as it was.\<close>

definition try_add :: "'p pypdf \<Rightarrow> fs \<Rightarrow> 'p list \<Rightarrow> string \<Rightarrow> 'p list" where
  "try_add lib fs writer path =
     (case reader_pages lib fs path of
        Some pages \<Rightarrow> add_pages writer pages
      | None \<Rightarrow> writer)"

text \<open>\<open>if cover:\<close> is false for \<open>None\<close> and for the empty string.\<close>

definition add_cover :: "'p pypdf \<Rightarrow> config \<Rightarrow> fs \<Rightarrow> 'p list \<Rightarrow> string option \<Rightarrow> 'p list" where
  "add_cover lib cfg fs writer cover =
     (case cover of
        None \<Rightarrow> writer
      | Some cover' \<Rightarrow>
          if cover' = [] then writer
          else
            let cover_path = path_join (COVER_FOLDER cfg) cover'
            in if path_exists fs cover_path then try_add lib fs writer cover_path else writer)"

fun merge_loop :: "'p pypdf \<Rightarrow> config \<Rightarrow> fs \<Rightarrow> 'p list \<Rightarrow> string list \<Rightarrow> 'p list" where
  "merge_loop lib cfg fs writer [] = writer"
| "merge_loop lib cfg fs writer (filename' # rest) =
     (let path = path_join (UPLOAD_FOLDER cfg) filename'
      in if path_exists fs path \<and> is_pdf_name filename'
         then merge_loop lib cfg fs (try_add lib fs writer path) rest
         else merge_loop lib cfg fs writer rest)"

text \<open>The JSON body of \<open>/export\<close>: \<open>files\<close> (default \<open>[]\<close>) and \<open>cover\<close> (default \<open>None\<close>).\<close>

record export_request =
  files :: "string list"
  cover :: "string option"

text \<open>The pages in the writer when \<open>export_pdf\<close> writes it out.\<close>

definition export_pages :: "'p pypdf \<Rightarrow> config \<Rightarrow> fs \<Rightarrow> export_request \<Rightarrow> 'p list" where
  "export_pages lib cfg fs data =
     merge_loop lib cfg fs (add_cover lib cfg fs [] (cover data)) (files data)"

text \<open>\<open>now\<close> is \<open>datetime.utcnow().strftime('%Y%m%d%H%M%S%f')\<close>. The result is the new file
  system and the \<open>export\<close> field of the response.\<close>

definition export_pdf ::
  "'p pypdf \<Rightarrow> config \<Rightarrow> string \<Rightarrow> fs \<Rightarrow> export_request \<Rightarrow> fs \<times> string" where
  "export_pdf lib cfg now fs data =
     (let writer = export_pages lib cfg fs data;
          export_name = ''proposal_'' @ now @ ''.pdf'';
          export_path = path_join (EXPORT_FOLDER cfg) export_name
      in (fs_write fs export_path (PdfWriter_write lib writer), export_name))"

section \<open>Cover generator: floating-point numbers\<close>

text \<open>
  A Python \<open>float\<close> is an IEEE 754 binary64 number; a finite one is a rational number. An
  arithmetic operation gives the exact result rounded to the nearest binary64 number, a tie
  going to the even significand. For a positive \<open>x\<close>, \<open>exponent x\<close> is the integer \<open>e\<close>
  with \<open>pow2 e \<le> x < pow2 (e + 1)\<close>; the significand has 53 bits and the least exponent
  is -1022. Overflow is not modelled: image sizes are 32-bit numbers, so no value the
  program computes is as large as \<open>pow2 1024\<close>.
\<close>

function bit_length :: "int \<Rightarrow> int" where
  "bit_length n = (if n \<le> 0 then 0 else 1 + bit_length (n div 2))"
  by pat_completeness auto
termination
  by (relation "measure nat") auto

declare bit_length.simps [simp del]

definition pow2 :: "int \<Rightarrow> rat" where
  "pow2 e = (if 0 \<le> e then 2 ^ nat e else 1 / 2 ^ nat (- e))"

definition exponent :: "rat \<Rightarrow> int" where
  "exponent x =
     (let (p, q) = quotient_of x;
          d = bit_length p - bit_length q
      in if pow2 d \<le> x then d else d - 1)"

definition round_half_even :: "rat \<Rightarrow> int" where
  "round_half_even x =
     (let f = \<lfloor>x\<rfloor>;
          r = x - of_int f
      in if r < 1 / 2 then f
         else if 1 / 2 < r then f + 1
         else if even f then f else f + 1)"

definition binary64 :: "rat \<Rightarrow> rat" where
  "binary64 x =
     (if x = 0 then 0
      else
        let ulp = pow2 (max (exponent \<bar>x\<bar>) (- 1022) - 52)
        in of_int (round_half_even (x / ulp)) * ulp)"

text \<open>The operators \<open>*\<close>, \<open>/\<close> and \<open>-\<close> on floats; an \<open>int\<close> operand below \<open>pow2 53\<close> is
  converted exactly. Division by zero is tested where the program divides.\<close>

definition float_mul :: "rat \<Rightarrow> rat \<Rightarrow> rat" where
  "float_mul a b = binary64 (a * b)"

definition float_div :: "rat \<Rightarrow> rat \<Rightarrow> rat" where
  "float_div a b = binary64 (a / b)"

definition float_sub :: "rat \<Rightarrow> rat \<Rightarrow> rat" where
  "float_sub a b = binary64 (a - b)"

text \<open>Page geometry of reportlab: \<open>letter\<close> is \<open>(612.0, 792.0)\<close> and \<open>inch\<close> is \<open>72.0\<close>.\<close>

definition inch :: rat where
  "inch = 72"

definition width :: rat where
  "width = 612"

definition height :: rat where
  "height = 792"

section \<open>Cover generator: the canvas\<close>

text \<open>
  The canvas records the drawing calls that reach the page, in order. A text call is
  recorded with the font and fill colour that are current when it is issued.
\<close>

datatype color = Hex string | white | black

datatype draw_op =
    DrawImage string rat rat rat rat
  | Rect rat rat rat rat color
  | DrawString rat rat string string rat color
  | DrawRightString rat rat string string rat color
  | ShowPage
  | Save

record canvas =
  fillColor :: color
  fontName :: string
  fontSize :: rat
  state_stack :: "(color \<times> string \<times> rat) list"
  code :: "draw_op list"

text \<open>
  The exceptions of the cover generator: an image file that cannot be read, a division by
  zero, a colour string that \<open>colors.HexColor\<close> rejects, and the lookup of an attribute
  the canvas does not have.
\<close>

datatype cover_error = ImageError | ZeroDivisionError | ValueError | AttributeError string

text \<open>\<open>pdfcanvas.Canvas(path, pagesize=letter)\<close>: black fill, Helvetica 12, nothing drawn.\<close>

definition Canvas :: canvas where
  "Canvas = \<lparr>fillColor = black, fontName = ''Helvetica'', fontSize = 12, state_stack = [], code = []\<rparr>"

definition emit :: "draw_op \<Rightarrow> canvas \<Rightarrow> canvas" where
  "emit op c = c\<lparr>code := code c @ [op]\<rparr>"

text \<open>
  The methods of reportlab's \<open>Canvas\<close> that the program calls. \<open>beginPath\<close> returns a new
  path object and leaves the canvas as it is; the program drops the result. The program
  calls \<open>restoreState\<close> only after a \<open>saveState\<close>, so the case of an empty stack does not
  occur.
\<close>

definition setFillColor :: "color \<Rightarrow> canvas \<Rightarrow> cover_error + canvas" where
  "setFillColor col c = Inr (c\<lparr>fillColor := col\<rparr>)"

definition setFont :: "string \<Rightarrow> rat \<Rightarrow> canvas \<Rightarrow> cover_error + canvas" where
  "setFont psfontname sz c = Inr (c\<lparr>fontName := psfontname, fontSize := sz\<rparr>)"

definition saveState :: "canvas \<Rightarrow> cover_error + canvas" where
  "saveState c = Inr (c\<lparr>state_stack := (fillColor c, fontName c, fontSize c) # state_stack c\<rparr>)"

definition restoreState :: "canvas \<Rightarrow> cover_error + canvas" where
  "restoreState c =
     (case state_stack c of
        [] \<Rightarrow> Inr c
      | (col, psfontname, sz) # rest \<Rightarrow>
          Inr (c\<lparr>fillColor := col, fontName := psfontname, fontSize := sz, state_stack := rest\<rparr>))"

definition drawImage :: "string \<Rightarrow> rat \<Rightarrow> rat \<Rightarrow> rat \<Rightarrow> rat \<Rightarrow> canvas \<Rightarrow> cover_error + canvas" where
  "drawImage img x y w h c = Inr (emit (DrawImage img x y w h) c)"

definition rect :: "rat \<Rightarrow> rat \<Rightarrow> rat \<Rightarrow> rat \<Rightarrow> canvas \<Rightarrow> cover_error + canvas" where
  "rect x y w h c = Inr (emit (Rect x y w h (fillColor c)) c)"

definition beginPath :: "canvas \<Rightarrow> cover_error + canvas" where
  "beginPath c = Inr c"

definition drawString :: "rat \<Rightarrow> rat \<Rightarrow> string \<Rightarrow> canvas \<Rightarrow> cover_error + canvas" where
  "drawString x y s c = Inr (emit (DrawString x y s (fontName c) (fontSize c) (fillColor c)) c)"

definition drawRightString :: "rat \<Rightarrow> rat \<Rightarrow> string \<Rightarrow> canvas \<Rightarrow> cover_error + canvas" where
  "drawRightString x y s c =
     Inr (emit (DrawRightString x y s (fontName c) (fontSize c) (fillColor c)) c)"

definition showPage :: "canvas \<Rightarrow> cover_error + canvas" where
  "showPage c = Inr (emit ShowPage c)"

definition save :: "canvas \<Rightarrow> cover_error + canvas" where
  "save c = Inr (emit Save c)"

text \<open>
  \<open>moveTo\<close>, \<open>lineTo\<close>, \<open>close\<close> and \<open>fill\<close> are not attributes of reportlab's \<open>Canvas\<close>:
  \<open>moveTo\<close>, \<open>lineTo\<close> and \<open>close\<close> are methods of the path object that \<open>beginPath\<close> returns,
  and a path is painted with \<open>c.drawPath(p, fill=1)\<close>. The program calls the four on the
  canvas, where the attribute lookup raises \<open>AttributeError\<close> before an argument is looked
  at.
\<close>

definition moveTo :: "rat \<Rightarrow> rat \<Rightarrow> canvas \<Rightarrow> cover_error + canvas" where
  "moveTo x y c = Inl (AttributeError ''moveTo'')"

definition lineTo :: "rat \<Rightarrow> rat \<Rightarrow> canvas \<Rightarrow> cover_error + canvas" where
  "lineTo x y c = Inl (AttributeError ''lineTo'')"

definition close :: "canvas \<Rightarrow> cover_error + canvas" where
  "close c = Inl (AttributeError ''close'')"

definition fill :: "canvas \<Rightarrow> cover_error + canvas" where
  "fill c = Inl (AttributeError ''fill'')"

text \<open>A block of consecutive canvas statements: the first exception ends the block.\<close>

fun run :: "(canvas \<Rightarrow> cover_error + canvas) list \<Rightarrow> canvas \<Rightarrow> cover_error + canvas" where
  "run [] c = Inr c"
| "run (stmt # stmts) c = (case stmt c of Inl e \<Rightarrow> Inl e | Inr c' \<Rightarrow> run stmts c')"

section \<open>Cover generator: \<open>generate_cover_pdf\<close>\<close>

text \<open>
  The libraries the cover generator calls are parameters: \<open>getSize\<close> is
  \<open>ImageReader(path).getSize()\<close> on the bytes of an image file (\<open>None\<close> when the file is
  not an image), \<open>valid_hex\<close> tells whether \<open>colors.HexColor\<close> accepts a string,
  \<open>stringWidth\<close> is the canvas method with text, font name and font size, \<open>strptime\<close> is
  \<open>datetime.strptime(s, '%Y-%m-%d')\<close> (\<open>None\<close> when it raises), \<open>strftime\<close> is
  \<open>date_obj.strftime('%B %Y')\<close>, and \<open>getpdfdata\<close> gives the bytes \<open>c.save()\<close> writes for
  the recorded calls.
\<close>

record 'd cover_lib =
  getSize :: "bytes \<Rightarrow> (32 word \<times> 32 word) option"
  valid_hex :: "string \<Rightarrow> bool"
  stringWidth :: "string \<Rightarrow> string \<Rightarrow> rat \<Rightarrow> rat"
  strptime :: "string \<Rightarrow> 'd option"
  strftime :: "'d \<Rightarrow> string"
  getpdfdata :: "draw_op list \<Rightarrow> bytes"

text \<open>\<open>c.setFillColor(colors.HexColor(s))\<close>: the argument is evaluated, then the method is
  called.\<close>

definition setFillColorHex :: "'d cover_lib \<Rightarrow> string \<Rightarrow> canvas \<Rightarrow> cover_error + canvas" where
  "setFillColorHex lib s c = (if valid_hex lib s then setFillColor (Hex s) c else Inl ValueError)"

definition image_size :: "'d cover_lib \<Rightarrow> fs \<Rightarrow> string \<Rightarrow> (nat \<times> nat) option" where
  "image_size lib fs path =
     (case map_of fs path of
        Some (File b) \<Rightarrow> (case getSize lib b of Some (w, h) \<Rightarrow> Some (unat w, unat h) | None \<Rightarrow> None)
      | Some Dir \<Rightarrow> None
      | None \<Rightarrow> None)"

text \<open>The background: the image scaled to cover 65 percent of the page height and at least
  the page width, or a grey rectangle over the top half.\<close>

definition draw_background :: "'d cover_lib \<Rightarrow> config \<Rightarrow> fs \<Rightarrow> canvas \<Rightarrow> cover_error + canvas" where
  "draw_background lib cfg fs c =
     (let bg_path = path_join (STATIC_FOLDER cfg) ''background.png''
      in if path_exists fs bg_path then
           (case image_size lib fs bg_path of
              None \<Rightarrow> Inl ImageError
            | Some (img_width, img_height) \<Rightarrow>
                if img_width = 0 then Inl ZeroDivisionError
                else
                  let aspect = float_div (of_nat img_height) (of_nat img_width);
                      draw_height = float_mul height (binary64 (65 / 100))
                  in if aspect = 0 then Inl ZeroDivisionError
                     else
                       let draw_width = float_div draw_height aspect;
                           draw_width' = (if draw_width < width then width else draw_width);
                           draw_height' =
                             (if draw_width < width then float_mul width aspect else draw_height)
                       in drawImage bg_path 0 (float_sub height draw_height') draw_width'
                            draw_height' c)
         else run [setFillColorHex lib (GREY cfg),
                   rect 0 (float_mul height (binary64 (1 / 2))) width
                     (float_mul height (binary64 (1 / 2)))] c)"

text \<open>The blue header bar, lines 78 to 89 of the source, and the orange accent bar, lines
  92 to 100.\<close>

definition draw_banner :: "'d cover_lib \<Rightarrow> config \<Rightarrow> canvas \<Rightarrow> cover_error + canvas" where
  "draw_banner lib cfg c =
     run [setFillColorHex lib (BRAND_BLUE cfg),
          saveState,
          beginPath,
          moveTo 0 height,
          lineTo width height,
          lineTo width (float_sub height (float_mul height (binary64 (25 / 100)))),
          lineTo 0 (float_sub height (float_mul height (binary64 (35 / 100)))),
          close,
          fill,
          restoreState] c"

definition draw_accent :: "'d cover_lib \<Rightarrow> config \<Rightarrow> canvas \<Rightarrow> cover_error + canvas" where
  "draw_accent lib cfg c =
     run [setFillColorHex lib (ORANGE cfg),
          saveState,
          beginPath,
          moveTo 0 0,
          lineTo (float_mul width (binary64 (3 / 10))) 0,
          lineTo 0 (float_mul height (binary64 (12 / 100))),
          close,
          fill,
          restoreState] c"

text \<open>The logo, lines 103 to 113: the scale factor is the smaller of the two ratios of box
  side to image side.\<close>

definition draw_logo :: "'d cover_lib \<Rightarrow> config \<Rightarrow> fs \<Rightarrow> canvas \<Rightarrow> cover_error + canvas" where
  "draw_logo lib cfg fs c =
     (let logo_path = path_join (STATIC_FOLDER cfg) ''logo.png''
      in if path_exists fs logo_path then
           (case image_size lib fs logo_path of
              None \<Rightarrow> Inl ImageError
            | Some (logo_width, logo_height) \<Rightarrow>
                let max_w = float_mul width (binary64 (2 / 10));
                    max_h = float_mul height (binary64 (15 / 100))
                in if logo_width = 0 \<or> logo_height = 0 then Inl ZeroDivisionError
                   else
                     let scale = min (float_div max_w (of_nat logo_width))
                                     (float_div max_h (of_nat logo_height));
                         lw = float_mul (of_nat logo_width) scale;
                         lh = float_mul (of_nat logo_height) scale
                     in drawImage logo_path (float_mul inch (binary64 (1 / 2)))
                          (float_sub (float_sub height lh) (float_mul inch (binary64 (1 / 2))))
                          lw lh c)
         else Inr c)"

text \<open>
  \<open>str.split()\<close> and \<open>str.strip()\<close> without arguments. A character is a code point below
  256; of these, \<open>str.isspace\<close> holds for the ones listed.
\<close>

definition isspace :: "char \<Rightarrow> bool" where
  "isspace c =
     (c \<in> set [CHR 0x09, CHR 0x0A, CHR 0x0B, CHR 0x0C, CHR 0x0D,
                CHR 0x1C, CHR 0x1D, CHR 0x1E, CHR 0x1F, CHR 0x20, CHR 0x85, CHR 0xA0])"

fun split_loop :: "string \<Rightarrow> string \<Rightarrow> string list" where
  "split_loop word [] = (if word = [] then [] else [word])"
| "split_loop word (c # cs) =
     (if isspace c then (if word = [] then split_loop [] cs else word # split_loop [] cs)
      else split_loop (word @ [c]) cs)"

definition split :: "string \<Rightarrow> string list" where
  "split s = split_loop [] s"

definition strip :: "string \<Rightarrow> string" where
  "strip s = rev (dropWhile isspace (rev (dropWhile isspace s)))"

text \<open>The loop \<open>for word in title.split()\<close> with its variables \<open>lines\<close> and \<open>current_line\<close>.\<close>

fun wrap_loop ::
  "'d cover_lib \<Rightarrow> rat \<Rightarrow> rat \<Rightarrow> string list \<Rightarrow> string \<Rightarrow> string list \<Rightarrow> string list \<times> string" where
  "wrap_loop lib title_font_size max_title_width lines current_line [] = (lines, current_line)"
| "wrap_loop lib title_font_size max_title_width lines current_line (word # rest) =
     (let test = strip (current_line @ '' '' @ word)
      in if stringWidth lib test ''Helvetica-Bold'' title_font_size < max_title_width
         then wrap_loop lib title_font_size max_title_width lines test rest
         else wrap_loop lib title_font_size max_title_width (lines @ [current_line]) word rest)"

definition title_lines :: "'d cover_lib \<Rightarrow> string \<Rightarrow> string list" where
  "title_lines lib title =
     (let title_font_size = 36;
          max_title_width = float_mul width (binary64 (8 / 10));
          (lines, current_line) =
             wrap_loop lib title_font_size max_title_width [] [] (split title)
      in if current_line \<noteq> [] then lines @ [current_line] else lines)"

text \<open>The loop \<open>for line in lines\<close> that draws the title and moves \<open>y_pos\<close> down.\<close>

fun draw_lines :: "rat \<Rightarrow> canvas \<Rightarrow> rat \<Rightarrow> string list \<Rightarrow> cover_error + (canvas \<times> rat)" where
  "draw_lines title_font_size c y_pos [] = Inr (c, y_pos)"
| "draw_lines title_font_size c y_pos (line # rest) =
     (case drawString (float_mul inch (binary64 (1 / 2))) y_pos line c of
        Inl e \<Rightarrow> Inl e
      | Inr c' \<Rightarrow>
          draw_lines title_font_size c'
            (float_sub y_pos (float_mul title_font_size (binary64 (12 / 10)))) rest)"

definition draw_title :: "'d cover_lib \<Rightarrow> string \<Rightarrow> canvas \<Rightarrow> cover_error + (canvas \<times> rat)" where
  "draw_title lib title c =
     (let title_font_size = 36
      in case run [setFillColor white, setFont ''Helvetica-Bold'' title_font_size] c of
           Inl e \<Rightarrow> Inl e
         | Inr c' \<Rightarrow>
             let lines = title_lines lib title;
                 y_pos = float_sub height (float_mul inch (binary64 (5 / 2)))
             in draw_lines title_font_size c' y_pos lines)"

definition draw_prepared :: "string \<Rightarrow> canvas \<Rightarrow> rat \<Rightarrow> cover_error + (canvas \<times> rat)" where
  "draw_prepared client_name c y_pos =
     (case run [setFont ''Helvetica'' 18, setFillColor white] c of
        Inl e \<Rightarrow> Inl e
      | Inr c' \<Rightarrow>
          if client_name \<noteq> [] then
            (case drawString (float_mul inch (binary64 (1 / 2))) (float_sub y_pos 10)
                    (''Prepared for '' @ client_name) c' of
               Inl e \<Rightarrow> Inl e
             | Inr c'' \<Rightarrow> Inr (c'', float_sub y_pos 28))
          else Inr (c', y_pos))"

definition draw_date :: "'d cover_lib \<Rightarrow> config \<Rightarrow> string \<Rightarrow> canvas \<Rightarrow> cover_error + canvas" where
  "draw_date lib cfg date_str c =
     (if date_str \<noteq> [] then
        let month_year =
              (case strptime lib date_str of
                 Some date_obj \<Rightarrow> strftime lib date_obj
               | None \<Rightarrow> date_str)
        in run [setFont ''Helvetica'' 16,
                setFillColorHex lib (BRAND_BLUE cfg),
                drawRightString (float_sub width (float_mul inch (binary64 (1 / 2))))
                  (float_mul height (binary64 (3 / 10))) month_year] c
      else Inr c)"

definition draw_presented ::
  "'d cover_lib \<Rightarrow> config \<Rightarrow> string \<Rightarrow> string \<Rightarrow> canvas \<Rightarrow> cover_error + canvas" where
  "draw_presented lib cfg client_name created_by c =
     run [setFont ''Helvetica'' 12,
          setFillColorHex lib (BRAND_BLUE cfg),
          (\<lambda>c1. if client_name \<noteq> [] then
                  run [drawString (float_mul inch (binary64 (1 / 2)))
                         (float_mul inch (binary64 (7 / 10))) ''Presented to'',
                       setFont ''Helvetica-Bold'' 16,
                       setFillColor black,
                       drawString (float_mul inch (binary64 (1 / 2)))
                         (float_mul inch (binary64 (1 / 2))) client_name] c1
                else Inr c1),
          (\<lambda>c2. if created_by \<noteq> [] then
                  run [setFont ''Helvetica'' 12,
                       setFillColorHex lib (BRAND_BLUE cfg),
                       drawRightString (float_sub width (float_mul inch (binary64 (1 / 2))))
                         (float_mul inch (binary64 (7 / 10))) ''Presented by'',
                       setFont ''Helvetica-Bold'' 16,
                       setFillColor black,
                       drawRightString (float_sub width (float_mul inch (binary64 (1 / 2))))
                         (float_mul inch (binary64 (1 / 2))) created_by] c2
                else Inr c2)] c"

text \<open>
  \<open>now\<close> is \<open>datetime.utcnow().strftime('%Y%m%d%H%M%S%f')\<close>. When no statement raises, the
  result is the new file system, the returned file name and the canvas as saved; an
  exception leaves the function and nothing is written.
\<close>

definition generate_cover_pdf ::
  "'d cover_lib \<Rightarrow> config \<Rightarrow> string \<Rightarrow> fs \<Rightarrow> string \<Rightarrow> string \<Rightarrow> string \<Rightarrow> string
     \<Rightarrow> cover_error + (fs \<times> string \<times> canvas)" where
  "generate_cover_pdf lib cfg now fs title client_name created_by date_str =
     (let filename' = ''cover_'' @ now @ ''.pdf'';
          path = path_join (COVER_FOLDER cfg) filename'
      in case run [draw_background lib cfg fs,
                   draw_banner lib cfg,
                   draw_accent lib cfg,
                   draw_logo lib cfg fs] Canvas of
           Inl e \<Rightarrow> Inl e
         | Inr c2 \<Rightarrow>
             (case draw_title lib title c2 of
                Inl e \<Rightarrow> Inl e
              | Inr (c3, y_pos) \<Rightarrow>
                  (case draw_prepared client_name c3 y_pos of
                     Inl e \<Rightarrow> Inl e
                   | Inr (c4, y_pos') \<Rightarrow>
                       (case run [draw_date lib cfg date_str,
                                  draw_presented lib cfg client_name created_by,
                                  showPage,
                                  save] c4 of
                          Inl e \<Rightarrow> Inl e
                        | Inr c7 \<Rightarrow>
                            Inr (fs_write fs path (getpdfdata lib (code c7)), filename', c7)))))"

text \<open>The \<open>/generate_cover\<close> route: the JSON body is a dictionary of strings, read with
  \<open>data.get(key, default)\<close>.\<close>

definition dict_get :: "(string \<rightharpoonup> string) \<Rightarrow> string \<Rightarrow> string \<Rightarrow> string" where
  "dict_get data key default' = (case data key of Some v \<Rightarrow> v | None \<Rightarrow> default')"

definition generate_cover ::
  "'d cover_lib \<Rightarrow> config \<Rightarrow> string \<Rightarrow> fs \<Rightarrow> (string \<rightharpoonup> string)
     \<Rightarrow> cover_error + (fs \<times> string \<times> canvas)" where
  "generate_cover lib cfg now fs data =
     (let title = dict_get data ''title'' ''Proposal'';
          client_name = dict_get data ''client_name'' [];
          created_by = dict_get data ''created_by'' [];
          date_str = dict_get data ''date'' []
      in generate_cover_pdf lib cfg now fs title client_name created_by date_str)"

section \<open>The export contract in the specification's words\<close>

text \<open>
  The pages a source contributes: all of its pages when it can be read, none otherwise. A
  source is unreadable when its path is missing or reading it raises.
\<close>

definition source_pages :: "'p pypdf \<Rightarrow> fs \<Rightarrow> string \<Rightarrow> 'p list" where
  "source_pages lib fs path = (case reader_pages lib fs path of Some pages \<Rightarrow> pages | None \<Rightarrow> [])"

definition unreadable :: "'p pypdf \<Rightarrow> fs \<Rightarrow> string \<Rightarrow> bool" where
  "unreadable lib fs path = (\<not> path_exists fs path \<or> reader_pages lib fs path = None)"

text \<open>
  An area is a directory. A file name exists in an area when it is the name of an entry
  directly inside the directory, as \<open>os.listdir\<close> gives them; the entry is then the file
  \<open>area/name\<close>. A name with a \<open>/\<close> in it, an absolute path or the empty string is the name
  of no entry.
\<close>

definition in_area :: "fs \<Rightarrow> string \<Rightarrow> string \<Rightarrow> bool" where
  "in_area fs area name = (name \<in> set (listdir fs area))"

definition area_entry :: "string \<Rightarrow> string \<Rightarrow> string" where
  "area_entry area name = area @ ''/'' @ name"

text \<open>
  The specification's page sequence: the pages of the cover (cover given, existing in the
  covers area, readable) followed by the pages of each listed module that exists in the
  modules area, ends in \<open>.pdf\<close> and is readable, in the order of the list.
\<close>

definition spec_cover_pages :: "'p pypdf \<Rightarrow> config \<Rightarrow> fs \<Rightarrow> string option \<Rightarrow> 'p list" where
  "spec_cover_pages lib cfg fs c =
     (case c of
        None \<Rightarrow> []
      | Some name \<Rightarrow>
          if in_area fs (COVER_FOLDER cfg) name
          then source_pages lib fs (area_entry (COVER_FOLDER cfg) name)
          else [])"

definition spec_module_pages :: "'p pypdf \<Rightarrow> config \<Rightarrow> fs \<Rightarrow> string \<Rightarrow> 'p list" where
  "spec_module_pages lib cfg fs name =
     (if in_area fs (UPLOAD_FOLDER cfg) name \<and> is_pdf_name name
      then source_pages lib fs (area_entry (UPLOAD_FOLDER cfg) name)
      else [])"

definition spec_export_pages :: "'p pypdf \<Rightarrow> config \<Rightarrow> fs \<Rightarrow> export_request \<Rightarrow> 'p list" where
  "spec_export_pages lib cfg fs data =
     spec_cover_pages lib cfg fs (cover data) @ concat (map (spec_module_pages lib cfg fs) (files data))"

text \<open>
  The partial-failure policy in the specification's words: of the sources of a request,
  those that are missing or unreadable are skipped, and the pages of the remaining ones
  are merged in order. The sources of a request are the paths \<open>export_pdf\<close> computes for the
  cover, when one is given, and for the module names that end in \<open>.pdf\<close>.
\<close>

definition export_sources :: "config \<Rightarrow> export_request \<Rightarrow> string list" where
  "export_sources cfg data =
     (case cover data of
        None \<Rightarrow> []
      | Some c \<Rightarrow> if c = [] then [] else [path_join (COVER_FOLDER cfg) c])
     @ map (path_join (UPLOAD_FOLDER cfg)) (filter is_pdf_name (files data))"

definition remaining_sources :: "'p pypdf \<Rightarrow> fs \<Rightarrow> string list \<Rightarrow> string list" where
  "remaining_sources lib fs sources = filter (\<lambda>path. \<not> unreadable lib fs path) sources"

definition spec_merge :: "'p pypdf \<Rightarrow> fs \<Rightarrow> string list \<Rightarrow> 'p list" where
  "spec_merge lib fs sources = concat (map (source_pages lib fs) (remaining_sources lib fs sources))"


section \<open>Instances of the parameters\<close>

text \<open>
  A configuration, a sanitiser that keeps the characters werkzeug keeps, and a PDF library
  whose files are the marker \<open>%PDF\<close> followed by one character per page. They instantiate
  the parameters where a statement is evaluated on concrete inputs.
\<close>

definition example_config :: config where
  "example_config =
     \<lparr>app_dir = ''/app'', BRAND_BLUE = ''#0084a9'', ORANGE = ''#fc9a2d'', GREY = ''#f7f7f7''\<rparr>"

definition example_secure_filename :: "string \<Rightarrow> string" where
  "example_secure_filename s =
     filter (\<lambda>c. c \<in> set ''ABCDEFGHIJKLMNOPQRSTUVWXYZabcdefghijklmnopqrstuvwxyz0123456789_.-'') s"

definition example_pypdf :: "char pypdf" where
  "example_pypdf =
     \<lparr>PdfReader = (\<lambda>b. if startswith b ''%PDF'' then Some (drop 4 b) else None),
      PdfWriter_write = (\<lambda>pages. ''%PDF'' @ pages)\<rparr>"

definition example_fs :: fs where
  "example_fs =
     [(''/app/uploads/covers/cover_X.pdf'', File ''%PDFc''),
      (''/app/uploads/a.pdf'', File ''%PDFAA''),
      (''/app/uploads/b.pdf'', File ''%PDFBBB'')]"

text \<open>The same file system with a damaged module \<open>bad.pdf\<close> in the modules area, and with a
  one-page file outside the application's directories.\<close>

definition example_fs_bad :: fs where
  "example_fs_bad = example_fs @ [(''/app/uploads/bad.pdf'', File ''junk'')]"

definition example_fs_secret :: fs where
  "example_fs_secret = example_fs @ [(''/etc/secret.pdf'', File ''%PDFS'')]"

text \<open>A file system whose static assets hold a logo and no background image.\<close>

definition example_logo_fs :: fs where
  "example_logo_fs = [(''/app/static/logo.png'', File ''PNG'')]"

section \<open>Lemmas about the module store and the export merger\<close>

lemma add_pages_append: "add_pages writer pages = writer @ pages"
  by (induction pages arbitrary: writer) auto

lemma try_add_append: "try_add lib fs writer path = writer @ source_pages lib fs path"
  by (simp add: try_add_def source_pages_def add_pages_append split: option.splits)

lemma reader_pages_missing: "\<not> path_exists fs p \<Longrightarrow> reader_pages lib fs p = None"
  by (simp add: reader_pages_def path_exists_def)

lemma unreadable_iff: "unreadable lib fs path \<longleftrightarrow> reader_pages lib fs path = None"
  by (auto simp: unreadable_def reader_pages_missing)

lemma source_pages_unreadable: "unreadable lib fs path \<Longrightarrow> source_pages lib fs path = []"
  by (simp add: unreadable_iff source_pages_def)

lemma source_pages_missing: "\<not> path_exists fs path \<Longrightarrow> source_pages lib fs path = []"
  by (simp add: source_pages_def reader_pages_missing)

lemma spec_merge_all: "spec_merge lib fs sources = concat (map (source_pages lib fs) sources)"
  unfolding spec_merge_def remaining_sources_def
  by (induction sources) (simp_all add: source_pages_unreadable)

lemma add_cover_sources:
  "add_cover lib cfg fs writer c =
     writer @ concat (map (source_pages lib fs)
       (case c of None \<Rightarrow> [] | Some c' \<Rightarrow> if c' = [] then [] else [path_join (COVER_FOLDER cfg) c']))"
  by (simp add: add_cover_def try_add_append source_pages_missing Let_def split: option.splits)

lemma merge_loop_sources:
  "merge_loop lib cfg fs writer names =
     writer @ concat (map (source_pages lib fs)
       (map (path_join (UPLOAD_FOLDER cfg)) (filter is_pdf_name names)))"
  by (induction names arbitrary: writer) (auto simp: try_add_append source_pages_missing Let_def)

lemma export_pages_merge:
  "export_pages lib cfg fs data = spec_merge lib fs (export_sources cfg data)"
  by (simp add: export_pages_def spec_merge_all export_sources_def merge_loop_sources
      add_cover_sources)

lemma map_of_fs_write: "map_of (fs_write fs p b) = (map_of fs)(p \<mapsto> File b)"
  by (simp add: fs_write_def update_conv')

lemma reader_pages_exists: "reader_pages lib fs p = Some ps \<Longrightarrow> path_exists fs p"
  by (auto simp: reader_pages_def path_exists_def split: option.splits node.splits)

lemma is_pdf_a: "is_pdf_name ''a.pdf''" "is_pdf_name ''b.pdf''"
  by (simp_all add: is_pdf_name_def endswith_def lower_def lower_char_def)

lemma upload_loop_filter:
  "upload_loop sf cfg fs acc ups = upload_loop sf cfg fs acc (filter (\<lambda>f. is_pdf_name (filename f)) ups)"
  by (induction ups arbitrary: fs acc) (auto simp: Let_def split: prod.splits)

lemma path_exists_fs_write: "path_exists (fs_write fs p b) q \<longleftrightarrow> q = p \<or> path_exists fs q"
  by (auto simp: path_exists_def map_of_fs_write)


lemma unique_name_free:
  "\<not> path_exists fs (path_join folder u) \<Longrightarrow> unique_name fs folder base ext c u = u"
  by (subst unique_name.simps) simp




lemma splitext_a_pdf: "splitext ''a.pdf'' = (''a'', ''.pdf'')"
  by (simp add: splitext_def rfind_def has_name_char.simps)



lemma set_map_filter_Some: "set (List.map_filter f xs) = {y. \<exists>x \<in> set xs. f x = Some y}"
  by (induction xs) (auto split: option.splits)

lemma set_listdir: "set (listdir fs d) = {n. \<exists>p \<in> fst ` set fs. child_name d p = Some n}"
  by (auto simp: listdir_def set_map_filter_Some)

lemma keys_fs_write: "fst ` set (fs_write fs p b) = insert p (fst ` set fs)"
  by (simp add: fs_write_def dom_update)

lemma set_listdir_fs_write:
  "set (listdir (fs_write fs p b) d) =
     set (listdir fs d) \<union> (case child_name d p of Some n \<Rightarrow> {n} | None \<Rightarrow> {})"
  by (auto simp: set_listdir keys_fs_write split: option.splits)

lemma UPLOAD_FOLDER_shape:
  "UPLOAD_FOLDER cfg \<noteq> [] \<and> \<not> endswith (UPLOAD_FOLDER cfg) ''/''"
  by (auto simp: UPLOAD_FOLDER_def path_join_def endswith_def startswith_def)

lemma child_name_join:
  "d \<noteq> [] \<Longrightarrow> \<not> endswith d ''/'' \<Longrightarrow> n \<noteq> [] \<Longrightarrow> CHR ''/'' \<notin> set n \<Longrightarrow>
     path_join d n = d @ ''/'' @ n \<and> child_name d (path_join d n) = Some n"
proof -
  assume d: "d \<noteq> []" "\<not> endswith d ''/''" and n: "n \<noteq> []" "CHR ''/'' \<notin> set n"
  from n have "\<not> startswith n ''/''" by (cases n) (auto simp: startswith_def)
  with d have j: "path_join d n = d @ ''/'' @ n" by (simp add: path_join_def)
  with n show ?thesis by (simp add: child_name_def startswith_def Let_def)
qed

lemma exists_in_listdir:
  "path_exists fs p \<Longrightarrow> child_name d p = Some n \<Longrightarrow> n \<in> set (listdir fs d)"
  by (auto simp: set_listdir path_exists_iff)

lemma sorted_list_modules: "sorted (list_modules cfg fs) \<and> distinct (list_modules cfg fs)"
  by (simp add: list_modules_def list_modules_loop_filter sorted_filter[where f = "\<lambda>x. x", simplified] listdir_def)

lemma set_list_modules:
  "set (list_modules cfg fs) = {n. n \<in> set (listdir fs (UPLOAD_FOLDER cfg)) \<and> is_pdf_name n}"
  by (auto simp: list_modules_def list_modules_loop_filter)

lemma upload_loop_step_free:
  "is_pdf_name name \<Longrightarrow> splitext name = (base, ext) \<Longrightarrow> sf name = name \<Longrightarrow>
   \<not> path_exists fs (path_join (UPLOAD_FOLDER cfg) name) \<Longrightarrow>
   upload_loop sf cfg fs acc (\<lparr>filename = name, stream = b\<rparr> # rest) =
     upload_loop sf cfg (fs_write fs (path_join (UPLOAD_FOLDER cfg) name) b) (acc @ [name]) rest"
  by (simp add: Let_def unique_name_free del: One_nat_def)

lemma COVER_FOLDER_shape:
  "COVER_FOLDER cfg \<noteq> [] \<and> \<not> endswith (COVER_FOLDER cfg) ''/''"
  by (auto simp: COVER_FOLDER_def path_join_def endswith_def startswith_def)

lemma child_name_Some: "child_name d p = Some n \<Longrightarrow> p = d @ ''/'' @ n \<and> n \<noteq> [] \<and> CHR ''/'' \<notin> set n"
proof -
  assume a: "child_name d p = Some n"
  then have s: "take (length (d @ ''/'')) p = d @ ''/''" and n: "n = drop (length (d @ ''/'')) p"
    and m: "n \<noteq> []" "CHR ''/'' \<notin> set n"
    by (auto simp: child_name_def Let_def startswith_def split: if_splits)
  have "p = take (length (d @ ''/'')) p @ drop (length (d @ ''/'')) p" by simp
  with s n have "p = (d @ ''/'') @ n" by simp
  with m show ?thesis by simp
qed

lemma in_area_plain: "in_area fs d n \<Longrightarrow> n \<noteq> [] \<and> CHR ''/'' \<notin> set n"
  by (auto simp: in_area_def set_listdir dest: child_name_Some)

lemma in_area_iff:
  assumes d: "d \<noteq> []" "\<not> endswith d ''/''" and n: "n \<noteq> []" "CHR ''/'' \<notin> set n"
  shows "in_area fs d n \<longleftrightarrow> path_exists fs (path_join d n)"
    and "area_entry d n = path_join d n"
proof -
  from child_name_join[OF d n] have j: "path_join d n = d @ ''/'' @ n"
    and c: "child_name d (path_join d n) = Some n" by blast+
  show "area_entry d n = path_join d n" by (simp add: area_entry_def j)
  show "in_area fs d n \<longleftrightarrow> path_exists fs (path_join d n)"
  proof
    assume "in_area fs d n"
    then obtain p where p: "p \<in> fst ` set fs" "child_name d p = Some n"
      by (auto simp: in_area_def set_listdir)
    from child_name_Some[OF p(2)] j have "p = path_join d n" by simp
    with p(1) show "path_exists fs (path_join d n)" by (simp add: path_exists_iff)
  next
    assume "path_exists fs (path_join d n)"
    from exists_in_listdir[OF this c] show "in_area fs d n" by (simp add: in_area_def)
  qed
qed

text \<open>A name without \<open>/\<close> makes the path the export opens the entry of that name in the
  area, so for such names the merger produces the specified pages.\<close>

lemma module_pages_plain:
  assumes "CHR ''/'' \<notin> set n" "is_pdf_name n"
  shows "source_pages lib fs (path_join (UPLOAD_FOLDER cfg) n) = spec_module_pages lib cfg fs n"
proof -
  from assms(2) have ne: "n \<noteq> []" by (auto simp: is_pdf_name_def endswith_def lower_def)
  note s = UPLOAD_FOLDER_shape[of cfg]
  from s have d: "UPLOAD_FOLDER cfg \<noteq> []" "\<not> endswith (UPLOAD_FOLDER cfg) ''/''" by simp_all
  note a = in_area_iff[OF d ne assms(1)]
  show ?thesis
    by (cases "path_exists fs (path_join (UPLOAD_FOLDER cfg) n)")
       (simp_all add: spec_module_pages_def a assms(2) source_pages_missing)
qed

lemma cover_pages_plain:
  assumes "CHR ''/'' \<notin> set c" "c \<noteq> []"
  shows "source_pages lib fs (path_join (COVER_FOLDER cfg) c) = spec_cover_pages lib cfg fs (Some c)"
proof -
  note s = COVER_FOLDER_shape[of cfg]
  from s have d: "COVER_FOLDER cfg \<noteq> []" "\<not> endswith (COVER_FOLDER cfg) ''/''" by simp_all
  note a = in_area_iff[OF d assms(2) assms(1)]
  show ?thesis
    by (cases "path_exists fs (path_join (COVER_FOLDER cfg) c)")
       (simp_all add: spec_cover_pages_def a source_pages_missing)
qed

lemma export_pages_plain_names:
  assumes f: "\<forall>n \<in> set (files data). CHR ''/'' \<notin> set n"
    and c: "\<forall>c. cover data = Some c \<longrightarrow> CHR ''/'' \<notin> set c"
  shows "export_pages lib cfg fs data = spec_export_pages lib cfg fs data"
proof -
  have m: "\<forall>n \<in> set names. CHR ''/'' \<notin> set n \<Longrightarrow>
      concat (map (source_pages lib fs) (map (path_join (UPLOAD_FOLDER cfg)) (filter is_pdf_name names)))
        = concat (map (spec_module_pages lib cfg fs) names)" for names
    by (induction names) (auto simp: module_pages_plain spec_module_pages_def)
  have k: "concat (map (source_pages lib fs)
       (case cover data of None \<Rightarrow> [] | Some c' \<Rightarrow> if c' = [] then [] else [path_join (COVER_FOLDER cfg) c']))
     = spec_cover_pages lib cfg fs (cover data)"
  proof (cases "cover data")
    case None
    then show ?thesis by (simp add: spec_cover_pages_def)
  next
    case (Some c')
    show ?thesis
    proof (cases "c' = []")
      case True
      have "\<not> in_area fs (COVER_FOLDER cfg) []" by (auto dest: in_area_plain)
      with Some True show ?thesis by (simp add: spec_cover_pages_def)
    next
      case False
      from c Some have "CHR ''/'' \<notin> set c'" by simp
      from cover_pages_plain[OF this False] Some False show ?thesis by simp
    qed
  qed
  show ?thesis
    unfolding export_pages_def merge_loop_sources add_cover_sources spec_export_pages_def m[OF f] k
    by simp
qed








section \<open>Claims about the export merger\<close>

text \<open>
  Claim C1 does not hold of the code. On the specification's own example, a one-page cover
  with the two-page module \<open>a.pdf\<close> and the three-page module \<open>b.pdf\<close>, the export holds
  the six pages in the specified order. But \<open>export_pdf\<close> joins the names of the request to
  the directories without sanitising them, so a name that is an absolute path is no entry
  of the modules area or of the covers area and still contributes its pages: the page
  sequence is then not the specified one.
\<close>

theorem export_page_sequence_with_outside_file:
  "spec_export_pages example_pypdf example_config example_fs_secret
        \<lparr>files = [''a.pdf'', ''b.pdf''], cover = Some ''cover_X.pdf''\<rparr> = ''cAABBB''
   \<and> export_pages example_pypdf example_config example_fs_secret
        \<lparr>files = [''a.pdf'', ''b.pdf''], cover = Some ''cover_X.pdf''\<rparr> = ''cAABBB''
   \<and> listdir example_fs_secret (UPLOAD_FOLDER example_config) = [''a.pdf'', ''b.pdf'']
   \<and> listdir example_fs_secret (COVER_FOLDER example_config) = [''cover_X.pdf'']
   \<and> spec_export_pages example_pypdf example_config example_fs_secret
        \<lparr>files = [''a.pdf'', ''/etc/secret.pdf''], cover = None\<rparr> = ''AA''
   \<and> export_pages example_pypdf example_config example_fs_secret
        \<lparr>files = [''a.pdf'', ''/etc/secret.pdf''], cover = None\<rparr> = ''AAS''
   \<and> map_of (fst (export_pdf example_pypdf example_config ''20240301120000000000'' example_fs_secret
          \<lparr>files = [''a.pdf'', ''/etc/secret.pdf''], cover = None\<rparr>))
        ''/app/uploads/exports/proposal_20240301120000000000.pdf''
      = Some (File ''%PDFAAS'')
   \<and> spec_export_pages example_pypdf example_config example_fs_secret
        \<lparr>files = [''a.pdf''], cover = Some ''/etc/secret.pdf''\<rparr> = ''AA''
   \<and> export_pages example_pypdf example_config example_fs_secret
        \<lparr>files = [''a.pdf''], cover = Some ''/etc/secret.pdf''\<rparr> = ''SAA''"
proof -
  have u: "UPLOAD_FOLDER example_config = ''/app/uploads''"
    and c: "COVER_FOLDER example_config = ''/app/uploads/covers''"
    and e: "EXPORT_FOLDER example_config = ''/app/uploads/exports''"
    by (simp_all add: UPLOAD_FOLDER_def COVER_FOLDER_def EXPORT_FOLDER_def example_config_def
        path_join_def startswith_def endswith_def)
  have lu: "listdir example_fs_secret ''/app/uploads'' = [''a.pdf'', ''b.pdf'']"
    and lc: "listdir example_fs_secret ''/app/uploads/covers'' = [''cover_X.pdf'']"
    by (simp_all add: listdir_def List.map_filter_def child_name_def startswith_def Let_def
        example_fs_secret_def example_fs_def)
  note code_defs = export_pages_def add_cover_def try_add_def reader_pages_def path_exists_def
    is_pdf_name_def lower_def lower_char_def example_pypdf_def path_join_def startswith_def
    endswith_def example_fs_secret_def example_fs_def
  note spec_defs = spec_export_pages_def spec_cover_pages_def spec_module_pages_def in_area_def
    area_entry_def source_pages_def reader_pages_def is_pdf_name_def lower_def lower_char_def
    example_pypdf_def startswith_def endswith_def
  have s1: "spec_export_pages example_pypdf example_config example_fs_secret
        \<lparr>files = [''a.pdf'', ''b.pdf''], cover = Some ''cover_X.pdf''\<rparr> = ''cAABBB''"
    unfolding spec_defs u c lu lc by (simp add: example_fs_secret_def example_fs_def)
  have s2: "spec_export_pages example_pypdf example_config example_fs_secret
        \<lparr>files = [''a.pdf'', ''/etc/secret.pdf''], cover = None\<rparr> = ''AA''"
    unfolding spec_defs u c lu lc by (simp add: example_fs_secret_def example_fs_def)
  have s3: "spec_export_pages example_pypdf example_config example_fs_secret
        \<lparr>files = [''a.pdf''], cover = Some ''/etc/secret.pdf''\<rparr> = ''AA''"
    unfolding spec_defs u c lu lc by (simp add: example_fs_secret_def example_fs_def)
  have c1: "export_pages example_pypdf example_config example_fs_secret
        \<lparr>files = [''a.pdf'', ''b.pdf''], cover = Some ''cover_X.pdf''\<rparr> = ''cAABBB''"
    by (simp add: code_defs u c)
  have c2: "export_pages example_pypdf example_config example_fs_secret
        \<lparr>files = [''a.pdf'', ''/etc/secret.pdf''], cover = None\<rparr> = ''AAS''"
    by (simp add: code_defs u c)
  have c3: "export_pages example_pypdf example_config example_fs_secret
        \<lparr>files = [''a.pdf''], cover = Some ''/etc/secret.pdf''\<rparr> = ''SAA''"
    by (simp add: code_defs u c)
  have w: "map_of (fst (export_pdf example_pypdf example_config ''20240301120000000000'' example_fs_secret
          \<lparr>files = [''a.pdf'', ''/etc/secret.pdf''], cover = None\<rparr>))
        ''/app/uploads/exports/proposal_20240301120000000000.pdf''
      = Some (File ''%PDFAAS'')"
    unfolding export_pdf_def Let_def c2 e
    by (simp add: map_of_fs_write path_join_def startswith_def endswith_def example_pypdf_def)
  from s1 s2 s3 c1 c2 c3 w lu lc show ?thesis unfolding u c by blast
qed

text \<open>
  Claim C2. The export always returns the generated name \<open>proposal_<timestamp>.pdf\<close> and
  writes under it, into the exports area, the pages of the request's sources with the
  missing and the unreadable ones skipped, the cover included: the pages of the remaining
  sources are all there, in order. When every source is missing or unreadable the file
  written holds no page. A request that names an unreadable module before or after a
  readable one exports the pages of the readable one.
\<close>

theorem export_pdf_skips_unreadable:
  "snd (export_pdf lib cfg now fs data) = ''proposal_'' @ now @ ''.pdf''
   \<and> map_of (fst (export_pdf lib cfg now fs data))
        (path_join (EXPORT_FOLDER cfg) (''proposal_'' @ now @ ''.pdf''))
      = Some (File (PdfWriter_write lib (spec_merge lib fs (export_sources cfg data))))
   \<and> export_pages lib cfg fs data = spec_merge lib fs (export_sources cfg data)
   \<and> ((\<forall>path \<in> set (export_sources cfg data). unreadable lib fs path) \<longrightarrow>
        map_of (fst (export_pdf lib cfg now fs data))
             (path_join (EXPORT_FOLDER cfg) (''proposal_'' @ now @ ''.pdf''))
           = Some (File (PdfWriter_write lib [])))
   \<and> (unreadable lib fs (path_join (UPLOAD_FOLDER cfg) bad)
        \<and> unreadable lib fs (path_join (COVER_FOLDER cfg) bad_cover) \<and> is_pdf_name good
        \<and> reader_pages lib fs (path_join (UPLOAD_FOLDER cfg) good) = Some pages \<longrightarrow>
        export_pages lib cfg fs \<lparr>files = [bad, good], cover = Some bad_cover\<rparr> = pages
        \<and> export_pages lib cfg fs \<lparr>files = [good, bad], cover = None\<rparr> = pages)"
proof (intro conjI impI)
  show "snd (export_pdf lib cfg now fs data) = ''proposal_'' @ now @ ''.pdf''"
    by (simp add: export_pdf_def Let_def)
  show w: "map_of (fst (export_pdf lib cfg now fs data))
        (path_join (EXPORT_FOLDER cfg) (''proposal_'' @ now @ ''.pdf''))
      = Some (File (PdfWriter_write lib (spec_merge lib fs (export_sources cfg data))))"
    by (simp add: export_pdf_def Let_def map_of_fs_write export_pages_merge)
  show "export_pages lib cfg fs data = spec_merge lib fs (export_sources cfg data)"
    by (rule export_pages_merge)
  {
    assume "\<forall>path \<in> set (export_sources cfg data). unreadable lib fs path"
    then have "remaining_sources lib fs (export_sources cfg data) = []"
      by (simp add: remaining_sources_def)
    then have "spec_merge lib fs (export_sources cfg data) = []" by (simp add: spec_merge_def)
    with w show "map_of (fst (export_pdf lib cfg now fs data))
             (path_join (EXPORT_FOLDER cfg) (''proposal_'' @ now @ ''.pdf''))
           = Some (File (PdfWriter_write lib []))"
      by simp
  }
  {
    assume h: "unreadable lib fs (path_join (UPLOAD_FOLDER cfg) bad)
        \<and> unreadable lib fs (path_join (COVER_FOLDER cfg) bad_cover) \<and> is_pdf_name good
        \<and> reader_pages lib fs (path_join (UPLOAD_FOLDER cfg) good) = Some pages"
    then have b: "source_pages lib fs (path_join (UPLOAD_FOLDER cfg) bad) = []"
      and bc: "source_pages lib fs (path_join (COVER_FOLDER cfg) bad_cover) = []"
      by (simp_all add: source_pages_unreadable)
    from h have g: "source_pages lib fs (path_join (UPLOAD_FOLDER cfg) good) = pages"
      by (simp add: source_pages_def)
    show "export_pages lib cfg fs \<lparr>files = [bad, good], cover = Some bad_cover\<rparr> = pages"
      using h b bc g by (simp add: export_pages_def merge_loop_sources add_cover_sources)
    show "export_pages lib cfg fs \<lparr>files = [good, bad], cover = None\<rparr> = pages"
      using h b g by (simp add: export_pages_def merge_loop_sources add_cover_sources)
  }
qed

theorem export_pdf_skips_unreadable_witness:
  "unreadable example_pypdf example_fs_bad (path_join (UPLOAD_FOLDER example_config) ''bad.pdf'')
   \<and> path_exists example_fs_bad (path_join (UPLOAD_FOLDER example_config) ''bad.pdf'')
   \<and> reader_pages example_pypdf example_fs_bad (path_join (UPLOAD_FOLDER example_config) ''a.pdf'')
       = Some ''AA''
   \<and> unreadable example_pypdf example_fs_bad (path_join (COVER_FOLDER example_config) ''no_cover.pdf'')
   \<and> export_pages example_pypdf example_config example_fs_bad
        \<lparr>files = [''bad.pdf'', ''a.pdf''], cover = Some ''no_cover.pdf''\<rparr> = ''AA''
   \<and> unreadable example_pypdf [] (path_join (UPLOAD_FOLDER example_config) ''missing.pdf'')
   \<and> map_of (fst (export_pdf example_pypdf example_config ''20240301120000000000'' []
          \<lparr>files = [''missing.pdf''], cover = None\<rparr>))
        ''/app/uploads/exports/proposal_20240301120000000000.pdf''
      = Some (File ''%PDF'')"
proof -
  let ?data = "\<lparr>files = [''missing.pdf''], cover = None\<rparr>"
  have u: "UPLOAD_FOLDER example_config = ''/app/uploads''"
    by (simp add: UPLOAD_FOLDER_def example_config_def path_join_def startswith_def endswith_def)
  have pb: "path_join ''/app/uploads'' ''bad.pdf'' = ''/app/uploads/bad.pdf''"
    and pa: "path_join ''/app/uploads'' ''a.pdf'' = ''/app/uploads/a.pdf''"
    by (simp_all add: path_join_def startswith_def endswith_def)
  have b: "unreadable example_pypdf example_fs_bad (path_join (UPLOAD_FOLDER example_config) ''bad.pdf'')"
    unfolding u pb
    by (simp add: unreadable_def reader_pages_def example_fs_bad_def example_fs_def
        example_pypdf_def startswith_def)
  have be: "path_exists example_fs_bad (path_join (UPLOAD_FOLDER example_config) ''bad.pdf'')"
    unfolding u pb by (simp add: path_exists_def example_fs_bad_def example_fs_def)
  have a: "reader_pages example_pypdf example_fs_bad (path_join (UPLOAD_FOLDER example_config) ''a.pdf'')
       = Some ''AA''"
    unfolding u pa
    by (simp add: reader_pages_def example_fs_bad_def example_fs_def example_pypdf_def startswith_def)
  have nc: "unreadable example_pypdf example_fs_bad
        (path_join (COVER_FOLDER example_config) ''no_cover.pdf'')"
    by (simp add: unreadable_def path_exists_def COVER_FOLDER_def u path_join_def startswith_def
        endswith_def example_fs_bad_def example_fs_def)
  from b nc a have h1: "unreadable example_pypdf example_fs_bad
        (path_join (UPLOAD_FOLDER example_config) ''bad.pdf'')
      \<and> unreadable example_pypdf example_fs_bad
        (path_join (COVER_FOLDER example_config) ''no_cover.pdf'') \<and> is_pdf_name ''a.pdf''
      \<and> reader_pages example_pypdf example_fs_bad
        (path_join (UPLOAD_FOLDER example_config) ''a.pdf'') = Some ''AA''"
    by (simp add: is_pdf_a)
  note t = export_pdf_skips_unreadable[where lib = example_pypdf and cfg = example_config]
  from t[THEN conjunct2, THEN conjunct2, THEN conjunct2, THEN conjunct2, THEN mp, OF h1,
      THEN conjunct1]
  have r1: "export_pages example_pypdf example_config example_fs_bad
        \<lparr>files = [''bad.pdf'', ''a.pdf''], cover = Some ''no_cover.pdf''\<rparr> = ''AA''" .
  have m: "unreadable example_pypdf [] (path_join (UPLOAD_FOLDER example_config) ''missing.pdf'')"
    by (simp add: unreadable_def path_exists_def)
  have pm: "is_pdf_name ''missing.pdf''"
    by (simp add: is_pdf_name_def endswith_def lower_def lower_char_def)
  from m have h2: "\<forall>path \<in> set (export_sources example_config ?data). unreadable example_pypdf [] path"
    by (simp add: export_sources_def pm)
  have p: "path_join (EXPORT_FOLDER example_config) (''proposal_'' @ ''20240301120000000000'' @ ''.pdf'')
      = ''/app/uploads/exports/proposal_20240301120000000000.pdf''"
    by (simp add: EXPORT_FOLDER_def UPLOAD_FOLDER_def example_config_def path_join_def
        startswith_def endswith_def)
  have w: "PdfWriter_write example_pypdf [] = ''%PDF''"
    by (simp add: example_pypdf_def)
  from t[of "''20240301120000000000''" "[]" ?data, THEN conjunct2, THEN conjunct2, THEN conjunct2,
      THEN conjunct1, THEN mp, OF h2]
  have r2: "map_of (fst (export_pdf example_pypdf example_config ''20240301120000000000'' [] ?data))
        ''/app/uploads/exports/proposal_20240301120000000000.pdf'' = Some (File ''%PDF'')"
    unfolding p w .
  from b be a nc r1 m r2 show ?thesis by blast
qed

text \<open>
  Claim C3 does not hold of the code: \<open>export_pdf\<close> joins the caller's file name to the
  modules directory without sanitising it, and \<open>os.path.join\<close> lets an absolute name
  replace the directory. The request below names a file outside the modules directory and
  its page ends up in the export.
\<close>

theorem export_pdf_reads_outside_modules_area:
  "UPLOAD_FOLDER example_config = ''/app/uploads''
   \<and> path_join (UPLOAD_FOLDER example_config) ''/etc/secret.pdf'' = ''/etc/secret.pdf''
   \<and> export_pages example_pypdf example_config [(''/etc/secret.pdf'', File ''%PDFS'')]
        \<lparr>files = [''/etc/secret.pdf''], cover = None\<rparr> = ''S''"
  by (simp add: export_pages_def add_cover_def try_add_def reader_pages_def path_exists_def
      is_pdf_name_def lower_def lower_char_def example_pypdf_def example_config_def
      UPLOAD_FOLDER_def path_join_def startswith_def endswith_def)

section \<open>Claims about the module store\<close>



text \<open>
  Claim C7. \<open>list_modules\<close> returns exactly the entries of the modules area whose name ends
  in \<open>.pdf\<close> case-insensitively, each once, sorted ascending; it only reads the file system.
  After \<open>b.pdf\<close> and then \<open>a.pdf\<close> are uploaded into a modules area without PDF entries it
  returns \<open>a.pdf\<close>, \<open>b.pdf\<close>.
\<close>

theorem list_modules_sorted_pdf_entries:
  "set (list_modules cfg fs) = {n. n \<in> set (listdir fs (UPLOAD_FOLDER cfg)) \<and> is_pdf_name n}
   \<and> sorted (list_modules cfg fs) \<and> distinct (list_modules cfg fs)
   \<and> (list_modules cfg fs = [] \<and> sf ''b.pdf'' = ''b.pdf'' \<and> sf ''a.pdf'' = ''a.pdf'' \<longrightarrow>
        list_modules cfg (fst (upload_files sf cfg fs
           [\<lparr>filename = ''b.pdf'', stream = b1\<rparr>, \<lparr>filename = ''a.pdf'', stream = b2\<rparr>]))
          = [''a.pdf'', ''b.pdf'']
        \<and> all_modules (snd (upload_files sf cfg fs
           [\<lparr>filename = ''b.pdf'', stream = b1\<rparr>, \<lparr>filename = ''a.pdf'', stream = b2\<rparr>]))
          = [''a.pdf'', ''b.pdf''])"
proof (intro conjI impI)
  show "set (list_modules cfg fs) = {n. n \<in> set (listdir fs (UPLOAD_FOLDER cfg)) \<and> is_pdf_name n}"
    by (rule set_list_modules)
  show "sorted (list_modules cfg fs)" "distinct (list_modules cfg fs)"
    by (simp_all add: sorted_list_modules)
next
  let ?U = "UPLOAD_FOLDER cfg"
  let ?ups = "[\<lparr>filename = ''b.pdf'', stream = b1\<rparr>, \<lparr>filename = ''a.pdf'', stream = b2\<rparr>]"
  assume h: "list_modules cfg fs = [] \<and> sf ''b.pdf'' = ''b.pdf'' \<and> sf ''a.pdf'' = ''a.pdf''"
  have ca: "path_join ?U ''a.pdf'' = ?U @ ''/'' @ ''a.pdf'' \<and> child_name ?U (path_join ?U ''a.pdf'') = Some ''a.pdf''"
    using UPLOAD_FOLDER_shape[of cfg] by (intro child_name_join) auto
  have cb: "path_join ?U ''b.pdf'' = ?U @ ''/'' @ ''b.pdf'' \<and> child_name ?U (path_join ?U ''b.pdf'') = Some ''b.pdf''"
    using UPLOAD_FOLDER_shape[of cfg] by (intro child_name_join) auto
  have none: "{n. n \<in> set (listdir fs ?U) \<and> is_pdf_name n} = {}"
    using h set_list_modules[of cfg fs] by simp
  have fa: "\<not> path_exists fs (path_join ?U ''a.pdf'')"
  proof
    assume "path_exists fs (path_join ?U ''a.pdf'')"
    then have "''a.pdf'' \<in> set (listdir fs ?U)" using ca by (auto intro: exists_in_listdir)
    with none show False by (auto simp: is_pdf_a)
  qed
  have fb: "\<not> path_exists fs (path_join ?U ''b.pdf'')"
  proof
    assume "path_exists fs (path_join ?U ''b.pdf'')"
    then have "''b.pdf'' \<in> set (listdir fs ?U)" using cb by (auto intro: exists_in_listdir)
    with none show False by (auto simp: is_pdf_a)
  qed
  define fs1 where "fs1 = fs_write fs (path_join ?U ''b.pdf'') b1"
  define fs2 where "fs2 = fs_write fs1 (path_join ?U ''a.pdf'') b2"
  have sb: "splitext ''b.pdf'' = (''b'', ''.pdf'')"
    by (simp add: splitext_def rfind_def has_name_char.simps)
  have fa1: "\<not> path_exists fs1 (path_join ?U ''a.pdf'')"
    using fa ca cb by (auto simp: fs1_def path_exists_fs_write)
  from h have sfa: "sf ''a.pdf'' = ''a.pdf''" and sfb: "sf ''b.pdf'' = ''b.pdf''" by simp_all
  have l1: "upload_loop sf cfg fs [] ?ups =
      upload_loop sf cfg fs1 ([] @ [''b.pdf'']) [\<lparr>filename = ''a.pdf'', stream = b2\<rparr>]"
    unfolding fs1_def by (rule upload_loop_step_free[where sf = sf, OF is_pdf_a(2) sb sfb fb])
  have l2: "upload_loop sf cfg fs1 ([] @ [''b.pdf'']) [\<lparr>filename = ''a.pdf'', stream = b2\<rparr>] =
      upload_loop sf cfg fs2 (([] @ [''b.pdf'']) @ [''a.pdf'']) []"
    unfolding fs2_def by (rule upload_loop_step_free[where sf = sf, OF is_pdf_a(1) splitext_a_pdf sfa fa1])
  have up: "upload_files sf cfg fs ?ups =
      (fs2, \<lparr>saved = [''b.pdf'', ''a.pdf''], all_modules = list_modules cfg fs2\<rparr>)"
    unfolding upload_files_def l1 l2 by simp
  have k2: "fst ` set fs2 = insert (path_join ?U ''a.pdf'') (insert (path_join ?U ''b.pdf'') (fst ` set fs))"
    by (simp add: fs2_def fs1_def keys_fs_write)
  have ld: "set (listdir fs2 ?U) = set (listdir fs ?U) \<union> {''a.pdf'', ''b.pdf''}"
    unfolding set_listdir k2 using ca cb by auto
  have s: "set (list_modules cfg fs2) = set [''a.pdf'', ''b.pdf'']"
    unfolding set_list_modules ld using none by (auto simp: is_pdf_a)
  have "list_modules cfg fs2 = [''a.pdf'', ''b.pdf'']"
    by (rule sorted_distinct_set_unique[OF _ _ _ _ s]) (simp_all add: sorted_list_modules)
  then show "list_modules cfg (fst (upload_files sf cfg fs ?ups)) = [''a.pdf'', ''b.pdf'']"
    and "all_modules (snd (upload_files sf cfg fs ?ups)) = [''a.pdf'', ''b.pdf'']"
    by (simp_all add: up)
qed

theorem list_modules_sorted_pdf_entries_witness:
  "list_modules example_config [] = []
   \<and> list_modules example_config (fst (upload_files example_secure_filename example_config []
        [\<lparr>filename = ''b.pdf'', stream = ''%PDF1''\<rparr>, \<lparr>filename = ''a.pdf'', stream = ''%PDF2''\<rparr>]))
      = [''a.pdf'', ''b.pdf'']
   \<and> all_modules (snd (upload_files example_secure_filename example_config []
        [\<lparr>filename = ''b.pdf'', stream = ''%PDF1''\<rparr>, \<lparr>filename = ''a.pdf'', stream = ''%PDF2''\<rparr>]))
      = [''a.pdf'', ''b.pdf'']"
proof -
  have e: "list_modules example_config [] = []"
    by (simp add: list_modules_def listdir_def)
  then have h: "list_modules example_config [] = []
      \<and> example_secure_filename ''b.pdf'' = ''b.pdf'' \<and> example_secure_filename ''a.pdf'' = ''a.pdf''"
    by (simp add: example_secure_filename_def)
  from list_modules_sorted_pdf_entries[where sf = example_secure_filename and fs = "[]",
      THEN conjunct2, THEN conjunct2, THEN conjunct2, rule_format, OF h] e
  show ?thesis by simp
qed

text \<open>
  Claim C8. An upload entry whose file name does not end in \<open>.pdf\<close> case-insensitively is
  skipped: the request behaves as if the entry were absent, so the entry is not in \<open>saved\<close>,
  nothing is written for it, and the other entries are processed as usual.
\<close>

theorem upload_skips_non_pdf:
  "upload_files sf cfg fs ups = upload_files sf cfg fs (filter (\<lambda>f. is_pdf_name (filename f)) ups)
   \<and> (\<not> is_pdf_name (filename f) \<longrightarrow>
        upload_files sf cfg fs (xs @ f # ys) = upload_files sf cfg fs (xs @ ys)
        \<and> upload_files sf cfg fs [f] = (fs, \<lparr>saved = [], all_modules = list_modules cfg fs\<rparr>))"
proof (intro conjI impI)
  show "upload_files sf cfg fs ups = upload_files sf cfg fs (filter (\<lambda>f. is_pdf_name (filename f)) ups)"
    unfolding upload_files_def by (subst upload_loop_filter) simp
next
  assume n: "\<not> is_pdf_name (filename f)"
  have "upload_loop sf cfg fs [] (xs @ f # ys) = upload_loop sf cfg fs [] (xs @ ys)"
    using n by (subst upload_loop_filter, subst (2) upload_loop_filter) simp
  then show "upload_files sf cfg fs (xs @ f # ys) = upload_files sf cfg fs (xs @ ys)"
    by (simp add: upload_files_def)
  show "upload_files sf cfg fs [f] = (fs, \<lparr>saved = [], all_modules = list_modules cfg fs\<rparr>)"
    using n by (simp add: upload_files_def)
qed

theorem upload_skips_non_pdf_witness:
  "\<not> is_pdf_name (filename \<lparr>filename = ''notes.txt'', stream = ''hello''\<rparr>)
   \<and> upload_files example_secure_filename example_config example_fs
        [\<lparr>filename = ''notes.txt'', stream = ''hello''\<rparr>]
      = (example_fs, \<lparr>saved = [], all_modules = list_modules example_config example_fs\<rparr>)"
proof -
  have h: "\<not> is_pdf_name (filename \<lparr>filename = ''notes.txt'', stream = ''hello''\<rparr>)"
    by (simp add: is_pdf_name_def endswith_def lower_def lower_char_def)
  from upload_skips_non_pdf[THEN conjunct2, rule_format, OF h] h
  show ?thesis by blast
qed


section \<open>Lemmas about the cover generator\<close>

text \<open>
  The header bar never gets drawn: after the fill colour is set, the call \<open>c.moveTo\<close> on
  line 83 raises. So \<open>generate_cover_pdf\<close> raises on every input, with the error of the
  background block when that block raises and with the error of the header bar otherwise;
  the statements from line 84 on are never reached and no file is written.
\<close>

lemma draw_banner_raises:
  "draw_banner lib cfg c =
     Inl (if valid_hex lib (BRAND_BLUE cfg) then AttributeError ''moveTo'' else ValueError)"
  by (simp add: draw_banner_def setFillColorHex_def setFillColor_def saveState_def beginPath_def
      moveTo_def)

lemma generate_cover_pdf_raises:
  "generate_cover_pdf lib cfg now fs title client_name created_by date_str =
     (case draw_background lib cfg fs Canvas of
        Inl e \<Rightarrow> Inl e
      | Inr c \<Rightarrow> Inl (if valid_hex lib (BRAND_BLUE cfg) then AttributeError ''moveTo'' else ValueError))"
  by (simp add: generate_cover_pdf_def draw_banner_raises split: sum.splits)

lemma generate_cover_pdf_never_returns:
  "generate_cover_pdf lib cfg now fs title client_name created_by date_str \<noteq> Inr r"
  by (simp add: generate_cover_pdf_raises split: sum.splits)

lemma draw_background_no_image:
  "\<not> path_exists fs (path_join (STATIC_FOLDER cfg) ''background.png'') \<Longrightarrow>
     draw_background lib cfg fs c =
       (if valid_hex lib (GREY cfg)
        then Inr (c\<lparr>fillColor := Hex (GREY cfg),
                    code := code c @ [Rect 0 (float_mul height (binary64 (1 / 2))) width
                                        (float_mul height (binary64 (1 / 2))) (Hex (GREY cfg))]\<rparr>)
        else Inl ValueError)"
  by (simp add: draw_background_def setFillColorHex_def setFillColor_def rect_def emit_def)

lemma generate_cover_pdf_no_image:
  "\<not> path_exists fs (path_join (STATIC_FOLDER cfg) ''background.png'') \<Longrightarrow>
     generate_cover_pdf lib cfg now fs title client_name created_by date_str =
       Inl (if valid_hex lib (GREY cfg) \<and> valid_hex lib (BRAND_BLUE cfg)
            then AttributeError ''moveTo'' else ValueError)"
  by (simp add: generate_cover_pdf_raises draw_background_no_image)

lemma example_logo_fs_paths:
  "path_exists example_logo_fs (path_join (STATIC_FOLDER example_config) ''logo.png'')"
  "\<not> path_exists example_logo_fs (path_join (STATIC_FOLDER example_config) ''background.png'')"
  by (simp_all add: path_exists_def example_logo_fs_def STATIC_FOLDER_def example_config_def
      path_join_def startswith_def endswith_def)

section \<open>Claims about the cover generator\<close>

text \<open>
  Claim C5 does not hold of the code: no title line is ever drawn. For every title, the
  long title \<open>Website Redesign Proposal\<close> included, \<open>generate_cover_pdf\<close> raises at the
  header bar, before the word wrap of lines 115 to 135 is reached: it never returns a
  cover, and without a background image the exception is the \<open>AttributeError\<close> of
  \<open>c.moveTo\<close> whenever the two colour strings are valid.
\<close>

theorem title_is_never_drawn:
  "generate_cover_pdf lib cfg now fs title client_name created_by date_str \<noteq> Inr r
   \<and> generate_cover_pdf lib cfg now [] title client_name created_by date_str =
       Inl (if valid_hex lib (GREY cfg) \<and> valid_hex lib (BRAND_BLUE cfg)
            then AttributeError ''moveTo'' else ValueError)
   \<and> generate_cover_pdf lib cfg now [] ''Website Redesign Proposal'' ''Acme Co'' ''Jo'' ''2024-03-01'' =
       Inl (if valid_hex lib (GREY cfg) \<and> valid_hex lib (BRAND_BLUE cfg)
            then AttributeError ''moveTo'' else ValueError)"
  by (simp add: generate_cover_pdf_never_returns generate_cover_pdf_no_image path_exists_def)

text \<open>
  Claim C6 does not hold of the code: the logo is never drawn. With a logo in the static
  assets \<open>generate_cover_pdf\<close> raises at the header bar, before the logo block of lines 103
  to 113 is reached, whatever the size of the logo.
\<close>

theorem logo_is_never_drawn:
  "path_exists example_logo_fs (path_join (STATIC_FOLDER example_config) ''logo.png'')
   \<and> generate_cover_pdf lib example_config now example_logo_fs title client_name created_by date_str =
       Inl (if valid_hex lib ''#f7f7f7'' \<and> valid_hex lib ''#0084a9''
            then AttributeError ''moveTo'' else ValueError)
   \<and> generate_cover_pdf lib cfg now fs title client_name created_by date_str \<noteq> Inr r"
  using example_logo_fs_paths
  by (simp add: generate_cover_pdf_never_returns generate_cover_pdf_no_image example_config_def)

text \<open>
  Claim C9 does not hold of the code: no date text is ever drawn. For every date string,
  one that parses as \<open>2024-03-01\<close> included, \<open>generate_cover_pdf\<close> raises at the header
  bar, before the date block of lines 145 to 156 is reached.
\<close>

theorem date_is_never_drawn:
  "generate_cover_pdf lib cfg now fs title client_name created_by date_str \<noteq> Inr r
   \<and> generate_cover_pdf lib cfg now [] title client_name created_by ''2024-03-01'' =
       Inl (if valid_hex lib (GREY cfg) \<and> valid_hex lib (BRAND_BLUE cfg)
            then AttributeError ''moveTo'' else ValueError)
   \<and> generate_cover_pdf lib cfg now [] title client_name created_by ''not a date'' =
       Inl (if valid_hex lib (GREY cfg) \<and> valid_hex lib (BRAND_BLUE cfg)
            then AttributeError ''moveTo'' else ValueError)"
  by (simp add: generate_cover_pdf_never_returns generate_cover_pdf_no_image path_exists_def)

text \<open>
  Claim C10 does not hold of the code: the \<open>/generate_cover\<close> route applies the defaults,
  \<open>Proposal\<close> for a missing \<open>title\<close> and the empty string for a missing \<open>client_name\<close>,
  \<open>created_by\<close> or \<open>date\<close>, and then raises in \<open>generate_cover_pdf\<close> for every body, the
  empty object included: no page is drawn, with or without the optional elements.
\<close>

theorem generate_cover_raises:
  "generate_cover lib cfg now fs data =
     generate_cover_pdf lib cfg now fs
       (case data ''title'' of None \<Rightarrow> ''Proposal'' | Some v \<Rightarrow> v)
       (case data ''client_name'' of None \<Rightarrow> [] | Some v \<Rightarrow> v)
       (case data ''created_by'' of None \<Rightarrow> [] | Some v \<Rightarrow> v)
       (case data ''date'' of None \<Rightarrow> [] | Some v \<Rightarrow> v)
   \<and> generate_cover lib cfg now fs data \<noteq> Inr r
   \<and> generate_cover lib cfg now [] Map.empty =
       Inl (if valid_hex lib (GREY cfg) \<and> valid_hex lib (BRAND_BLUE cfg)
            then AttributeError ''moveTo'' else ValueError)"
  by (simp add: generate_cover_def dict_get_def generate_cover_pdf_never_returns
      generate_cover_pdf_no_image path_exists_def)

end
